theory Spec2Isabelle
  imports Main
begin

section \<open>The views of djangosaml2 (\<^verbatim>\<open>src/djangosaml2/views.py\<close>)\<close>

text \<open>
  The five views sequence calls to two external collaborators, the pysaml2 library and
  the Django framework, and translate what they return into HTTP responses. Neither
  collaborator is part of the repository, so both are parameters of the model: a record
  \<open>env\<close> of functions, one per call the views make. Every theorem below holds for
  every \<open>env\<close>, that is for every behaviour of the library and of the framework. A
  collaborator call is a function of the arguments the view hands it (an \<open>env\<close> fixes
  whatever clock or nonce the library draws on), it returns a value of the shape the view
  takes apart, and an exception raised inside a collaborator is outside this development.
  What the views themselves raise (a missing key, a failed \<^verbatim>\<open>assert\<close>, \<^verbatim>\<open>Http404\<close>)
  is a branch of the model.
\<close>

subsection \<open>Values\<close>

text \<open>Configuration values: the nested dictionary bound to \<^verbatim>\<open>settings.SAML_CONFIG\<close>.\<close>

datatype cfg =
    CStr string
  | CInt int
  | CBool bool
  | CList "cfg list"
  | CDict "(string \<times> cfg) list"

text \<open>
  \<^verbatim>\<open>SPConfig\<close> is read by the views with \<^verbatim>\<open>conf['entityid']\<close> and
  \<^verbatim>\<open>conf.get('valid_for', 24)\<close>: a dictionary.
\<close>

type_synonym conf = "string \<rightharpoonup> cfg"

text \<open>\<^verbatim>\<open>request.GET\<close> and \<^verbatim>\<open>request.POST\<close>.\<close>

type_synonym querydict = "string \<rightharpoonup> string"

type_synonym headers = "(string \<times> string) list"

text \<open>The contents of the identity cache and of the shelf \<^verbatim>\<open>state.saml\<close>: only the
  library reads and writes them.\<close>

type_synonym identity_cache = "(string \<times> string) list"
type_synonym state_cache = "(string \<times> string) list"

type_synonym user = string

text \<open>The bindings of pysaml2; the views use \<^verbatim>\<open>BINDING_HTTP_REDIRECT\<close> only.\<close>

datatype binding = BINDING_HTTP_REDIRECT | BINDING_HTTP_POST | BINDING_SOAP

text \<open>
  Exceptions. \<open>DuplicateRequestId\<close> is the failure the specification gives the
  Outstanding Query Tracker; \<open>NotAuthenticated\<close> is named by the specification only and
  no view raises it.
\<close>

datatype exn =
    KeyError string
  | IndexError
  | TypeError
  | AssertionError
  | Http404 string
  | DuplicateRequestId
  | NotAuthenticated

text \<open>
  HTTP responses: \<^verbatim>\<open>HttpResponse(content, content_type)\<close> (\<open>None\<close> is the framework's
  default content type), \<^verbatim>\<open>HttpResponseRedirect(url)\<close>, the rendered template of
  \<^verbatim>\<open>render_to_response\<close> with its two context values, and a response built by the
  framework itself.
\<close>

datatype http_response =
    HttpResponse string "string option"
  | HttpResponseRedirect string
  | RenderToResponse string "(string \<times> string) list" string
  | FrameworkResponse string

text \<open>The verified response object of \<^verbatim>\<open>client.response\<close>, with its two accessors.\<close>

record authn_response =
  resp_session_id :: string
  resp_session_info :: "string \<rightharpoonup> string"

datatype security_context = SecurityContext string cfg

text \<open>
  \<^verbatim>\<open>request.session\<close>: the key \<^verbatim>\<open>SAML_SUBJECT_ID\<close> the views read and write, the
  slots of the two caches of \<^verbatim>\<open>djangosaml2.cache\<close>, and the keys of the framework.
\<close>

record session =
  SAML_SUBJECT_ID :: "string option"
  saml2_outstanding_queries :: "string \<rightharpoonup> string"
  saml2_identities :: identity_cache
  framework_keys :: "(string \<times> string) list"

record request =
  GET :: querydict
  POST :: querydict

text \<open>The settings module. \<^verbatim>\<open>SAML_CONFIG\<close> is a required setting; the other three are
  read with \<^verbatim>\<open>getattr\<close> and a default.\<close>

record settings =
  SAML_CONFIG :: cfg
  SAML_METADATA_ID :: "string option"
  SAML_METADATA_NAME :: "string option"
  SAML_METADATA_SIGN :: "bool option"

text \<open>
  The calls the views make to their collaborators, in the order they are made.
  \<open>ShelveClose\<close> stands for \<^verbatim>\<open>state.close()\<close>, which no view calls.
\<close>

datatype event =
    ShelveOpen
  | ShelveSync
  | ShelveClose
  | Authenticate "string option" string binding
  | Response
  | GlobalLogout string
  | LogoutResponse string binding
  | LogoutRequest string
  | AuthLogin user
  | AuthLogout
  | DjangoLogout

text \<open>
  The state a view runs in. Objects are mutable in Python, and the library is handed a
  dictionary it may change, so configuration dictionaries live in a store: the object
  bound to \<^verbatim>\<open>settings.SAML_CONFIG\<close>, shared by all requests, and the objects allocated
  since (\<open>heap\<close>, addressed by index). A \<open>cfg\<close> value in the store is the whole object
  graph reachable from one dictionary.
\<close>

record world =
  settings :: settings
  heap :: "cfg list"
  session :: session
  state_saml :: state_cache
  trace :: "event list"

datatype ref = SettingsRef | HeapRef nat

type_synonym result = "(exn + http_response) \<times> world"

subsection \<open>The collaborators\<close>

text \<open>
  pysaml2: \<open>conf_load d\<close> is \<^verbatim>\<open>SPConfig().load(d)\<close> and returns the loaded
  configuration together with \<open>d\<close> as \<open>load\<close> leaves it. The client calls that are given
  the identity cache or the state cache return them as the call leaves them.
  Django: \<open>auth_authenticate\<close>, \<open>auth_login\<close>, \<open>auth_logout\<close>, the view
  \<open>django_logout\<close>, and the test and the redirect of \<^verbatim>\<open>login_required\<close>.
\<close>

record env =
  conf_load :: "cfg \<Rightarrow> conf \<times> cfg"
  conf_is_wayf_needed :: "conf \<Rightarrow> bool"
  conf_get_available_idps :: "conf \<Rightarrow> (string \<times> string) list"
  conf_single_sign_on_service :: "conf \<Rightarrow> string \<Rightarrow> string"
  conf_xmlsec :: "conf \<Rightarrow> string"
  client_authenticate :: "conf \<Rightarrow> string option \<Rightarrow> string \<Rightarrow> binding \<Rightarrow> string \<times> string list"
  client_response :: "conf \<Rightarrow> identity_cache \<Rightarrow> string \<Rightarrow> cfg \<Rightarrow> (string \<rightharpoonup> string)
    \<Rightarrow> authn_response option \<times> identity_cache"
  client_global_logout :: "conf \<Rightarrow> state_cache \<Rightarrow> identity_cache \<Rightarrow> string
    \<Rightarrow> (string \<times> string \<times> headers \<times> string) \<times> state_cache \<times> identity_cache"
  client_logout_response :: "conf \<Rightarrow> state_cache \<Rightarrow> identity_cache \<Rightarrow> string \<Rightarrow> binding
    \<Rightarrow> (string \<times> string \<times> headers \<times> string) option \<times> state_cache \<times> identity_cache"
  client_logout_request :: "conf \<Rightarrow> state_cache \<Rightarrow> identity_cache \<Rightarrow> querydict \<Rightarrow> string
    \<Rightarrow> (headers option \<times> bool) \<times> state_cache \<times> identity_cache"
  entity_descriptor :: "conf \<Rightarrow> cfg \<Rightarrow> string"
  entities_descriptor :: "string list \<Rightarrow> cfg \<Rightarrow> string \<Rightarrow> string \<Rightarrow> bool \<Rightarrow> security_context \<Rightarrow> string"
  auth_authenticate :: "(string \<rightharpoonup> string) \<Rightarrow> user option"
  auth_login :: "session \<Rightarrow> user \<Rightarrow> session"
  auth_logout :: "session \<Rightarrow> session"
  django_logout :: "request \<Rightarrow> session \<Rightarrow> http_response \<times> session"
  user_is_authenticated :: "session \<Rightarrow> bool"
  redirect_to_login :: "request \<Rightarrow> http_response"

subsection \<open>The store of configuration objects\<close>

text \<open>A reference is the shared dictionary or an index into \<open>heap\<close>. The only
  references the views hold come from \<open>deepcopy\<close>, which allocates the index it
  returns.\<close>

fun deref :: "world \<Rightarrow> ref \<Rightarrow> cfg" where
  "deref w SettingsRef = SAML_CONFIG (settings w)"
| "deref w (HeapRef n) = heap w ! n"

fun assign :: "ref \<Rightarrow> cfg \<Rightarrow> world \<Rightarrow> world" where
  "assign SettingsRef v w = w\<lparr>settings := (settings w)\<lparr>SAML_CONFIG := v\<rparr>\<rparr>"
| "assign (HeapRef n) v w = w\<lparr>heap := (heap w)[n := v]\<rparr>"

text \<open>\<^verbatim>\<open>copy.deepcopy\<close>: a new object holding a copy of everything reachable.\<close>

definition deepcopy :: "ref \<Rightarrow> world \<Rightarrow> ref \<times> world" where
  "deepcopy r w = (HeapRef (length (heap w)), w\<lparr>heap := heap w @ [deref w r]\<rparr>)"

text \<open>\<^verbatim>\<open>conf.load(d)\<close>: the library reads the object behind \<open>d\<close> and may change it.\<close>

definition load :: "env \<Rightarrow> ref \<Rightarrow> world \<Rightarrow> conf \<times> world" where
  "load env d w = (case conf_load env (deref w d) of (c, d') \<Rightarrow> (c, assign d d' w))"

text \<open>\<^verbatim>\<open>_load_conf\<close>.\<close>

definition load_conf :: "env \<Rightarrow> world \<Rightarrow> conf \<times> world" where
  "load_conf env w = (case deepcopy SettingsRef w of (d, w1) \<Rightarrow> load env d w1)"

definition emit :: "event \<Rightarrow> world \<Rightarrow> world" where
  "emit e w = w\<lparr>trace := trace w @ [e]\<rparr>"

subsection \<open>The Outstanding Query Tracker\<close>

text \<open>
  The class \<^verbatim>\<open>OutstandingQueriesCache\<close> of \<^verbatim>\<open>djangosaml2.cache\<close>, which the views
  import, is not among the sources. Its three methods follow section 4.2 of the
  specification; the cache lives in a slot of the session.
\<close>

text \<open>Modelled from the spec: \<^verbatim>\<open>OutstandingQueriesCache.set\<close>, missing from the sources.
  The specification's \<^verbatim>\<open>record(requestId, returnLocation)\<close>: inserts; fails with
  \<open>DuplicateRequestId\<close> if already present.\<close>

definition oq_set :: "session \<Rightarrow> string \<Rightarrow> string \<Rightarrow> exn + session" where
  "oq_set s saml2_session_id came_from =
     (if saml2_outstanding_queries s saml2_session_id \<noteq> None then Inl DuplicateRequestId
      else Inr (s\<lparr>saml2_outstanding_queries :=
                   (saml2_outstanding_queries s)(saml2_session_id \<mapsto> came_from)\<rparr>))"

text \<open>Modelled from the spec: \<^verbatim>\<open>OutstandingQueriesCache.delete\<close>, missing from the
  sources. The specification's \<^verbatim>\<open>forget(requestId)\<close>: idempotent removal.\<close>

definition oq_delete :: "session \<Rightarrow> string \<Rightarrow> session" where
  "oq_delete s saml2_session_id =
     s\<lparr>saml2_outstanding_queries := (saml2_outstanding_queries s)(saml2_session_id := None)\<rparr>"

text \<open>Modelled from the spec: \<^verbatim>\<open>OutstandingQueriesCache.outstanding_queries\<close>, missing
  from the sources. The specification's set of currently outstanding identifiers, the full
  set, with their return locations.\<close>

definition oq_outstanding_queries :: "session \<Rightarrow> (string \<rightharpoonup> string)" where
  "oq_outstanding_queries s = saml2_outstanding_queries s"

subsection \<open>The views\<close>

text \<open>\<^verbatim>\<open>request.GET.get(key, default)\<close>.\<close>

definition get_default :: "querydict \<Rightarrow> string \<Rightarrow> string \<Rightarrow> string" where
  "get_default q k d = (case q k of None \<Rightarrow> d | Some v \<Rightarrow> v)"

text \<open>\<^verbatim>\<open>login\<close>.\<close>

definition login :: "env \<Rightarrow> request \<Rightarrow> world \<Rightarrow> result" where
  "login env request w =
     (let came_from = get_default (GET request) ''next'' ''/'';
          selected_idp = GET request ''idp''
      in (case load_conf env w of (conf, w1) \<Rightarrow>
        (if selected_idp = None \<and> conf_is_wayf_needed env conf then
           (Inr (RenderToResponse ''djangosaml2/wayf.html''
                   (conf_get_available_idps env conf) came_from), w1)
         else
           (let selected_idp =
                  (case selected_idp of None \<Rightarrow> None
                   | Some idp \<Rightarrow> Some (conf_single_sign_on_service env conf idp))
            in (case client_authenticate env conf selected_idp came_from
                       BINDING_HTTP_REDIRECT of
              (session_id, result) \<Rightarrow>
                (let w2 = emit (Authenticate selected_idp came_from BINDING_HTTP_REDIRECT) w1
                 in (if length result \<noteq> 2 then (Inl AssertionError, w2)
                     else if result ! 0 \<noteq> ''Location'' then (Inl AssertionError, w2)
                     else
                       (let location = result ! 1
                        in (case oq_set (session w2) session_id came_from of
                              Inl e \<Rightarrow> (Inl e, w2)
                            | Inr s \<Rightarrow>
                                (Inr (HttpResponseRedirect location),
                                 w2\<lparr>session := s\<rparr>))))))))))"

text \<open>
  \<^verbatim>\<open>assertion_consumer_service\<close>. \<^verbatim>\<open>Saml2Client(conf, identity_cache=...)\<close> only
  binds its arguments: the client is the configuration and the caches handed to each call.
\<close>

definition assertion_consumer_service :: "env \<Rightarrow> request \<Rightarrow> world \<Rightarrow> result" where
  "assertion_consumer_service env request w =
     (case load_conf env w of (conf, w1) \<Rightarrow>
     (case POST request ''SAMLResponse'' of
        None \<Rightarrow> (Inl (KeyError ''SAMLResponse''), w1)
      | Some post \<Rightarrow>
     (let outstanding_queries = oq_outstanding_queries (session w1)
      in (case conf ''entityid'' of
        None \<Rightarrow> (Inl (KeyError ''entityid''), w1)
      | Some entityid \<Rightarrow>
     (case client_response env conf (saml2_identities (session w1)) post entityid
             outstanding_queries of
        (response, ids) \<Rightarrow>
     (let w2 = emit Response (w1\<lparr>session := (session w1)\<lparr>saml2_identities := ids\<rparr>\<rparr>)
      in (case response of
        None \<Rightarrow>
          (Inr (HttpResponse ''SAML response has errors. Please check the logs'' None), w2)
      | Some response \<Rightarrow>
     (let session_id = resp_session_id response;
          w3 = w2\<lparr>session := oq_delete (session w2) session_id\<rparr>;
          session_info = resp_session_info response
      in (case auth_authenticate env session_info of
        None \<Rightarrow> (Inr (HttpResponse ''user not valid'' None), w3)
      | Some user \<Rightarrow>
     (let w4 = emit (AuthLogin user) (w3\<lparr>session := auth_login env (session w3) user\<rparr>)
      in (case session_info ''name_id'' of
        None \<Rightarrow> (Inl (KeyError ''name_id''), w4)
      | Some name_id \<Rightarrow>
     (let w5 = w4\<lparr>session := (session w4)\<lparr>SAML_SUBJECT_ID := Some name_id\<rparr>\<rparr>;
          relay_state = get_default (POST request) ''RelayState'' ''/''
      in (Inr (HttpResponseRedirect relay_state), w5)))))))))))))"

text \<open>
  \<^verbatim>\<open>logout\<close>, the function under the decorator. \<^verbatim>\<open>dict(head)\<close> keeps the last value
  of a repeated header.
\<close>

definition logout_view :: "env \<Rightarrow> request \<Rightarrow> world \<Rightarrow> result" where
  "logout_view env request w =
     (let w1 = emit ShelveOpen w
      in (case load_conf env w1 of (conf, w2) \<Rightarrow>
     (case SAML_SUBJECT_ID (session w2) of
        None \<Rightarrow> (Inl (KeyError ''SAML_SUBJECT_ID''), w2)
      | Some subject_id \<Rightarrow>
     (case client_global_logout env conf (state_saml w2) (saml2_identities (session w2))
             subject_id of
        ((session_id, code, head, body), st, ids) \<Rightarrow>
     (let w3 = emit (GlobalLogout subject_id)
                 (w2\<lparr>state_saml := st, session := (session w2)\<lparr>saml2_identities := ids\<rparr>\<rparr>);
          headers = map_of (rev head);
          w4 = emit ShelveSync w3
      in (case headers ''Location'' of
        None \<Rightarrow> (Inl (KeyError ''Location''), w4)
      | Some location \<Rightarrow> (Inr (HttpResponseRedirect location), w4)))))))"

text \<open>\<^verbatim>\<open>@login_required\<close>: the view runs for an authenticated user, anyone else is
  redirected to the login page.\<close>

definition login_required ::
  "env \<Rightarrow> (request \<Rightarrow> world \<Rightarrow> result) \<Rightarrow> request \<Rightarrow> world \<Rightarrow> result" where
  "login_required env view_func request w =
     (if user_is_authenticated env (session w) then view_func request w
      else (Inr (redirect_to_login env request), w))"

definition logout :: "env \<Rightarrow> request \<Rightarrow> world \<Rightarrow> result" where
  "logout env = login_required env (logout_view env)"

text \<open>
  The two lines \<^verbatim>\<open>assert response[0][0] == 'Location'\<close> and \<^verbatim>\<open>url = response[0][1]\<close>,
  followed by the redirect, which \<^verbatim>\<open>logout_service\<close> has twice: subscripting \<^verbatim>\<open>None\<close>
  raises \<^verbatim>\<open>TypeError\<close>, and an empty list \<^verbatim>\<open>IndexError\<close>.
\<close>

definition location_of :: "headers option \<Rightarrow> exn + string" where
  "location_of response =
     (case response of
        None \<Rightarrow> Inl TypeError
      | Some [] \<Rightarrow> Inl IndexError
      | Some ((k, v) # _) \<Rightarrow> (if k = ''Location'' then Inr v else Inl AssertionError))"

definition redirect_to :: "headers option \<Rightarrow> world \<Rightarrow> result" where
  "redirect_to response w =
     (case location_of response of
        Inl e \<Rightarrow> (Inl e, w)
      | Inr url \<Rightarrow> (Inr (HttpResponseRedirect url), w))"

text \<open>\<^verbatim>\<open>logout_service\<close>. A tuple is true in \<^verbatim>\<open>response and response[1] == '200 Ok'\<close>,
  \<^verbatim>\<open>None\<close> is not.\<close>

definition logout_service :: "env \<Rightarrow> request \<Rightarrow> world \<Rightarrow> result" where
  "logout_service env request w =
     (case load_conf env w of (conf, w1) \<Rightarrow>
     (let w2 = emit ShelveOpen w1
      in (case SAML_SUBJECT_ID (session w2) of
        None \<Rightarrow> (Inl (KeyError ''SAML_SUBJECT_ID''), w2)
      | Some subject_id \<Rightarrow>
     (case GET request ''SAMLResponse'' of
        Some saml_response \<Rightarrow>
          (case client_logout_response env conf (state_saml w2)
                  (saml2_identities (session w2)) saml_response BINDING_HTTP_REDIRECT of
             (response, st, ids) \<Rightarrow>
          (let w3 = emit (LogoutResponse saml_response BINDING_HTTP_REDIRECT)
                      (w2\<lparr>state_saml := st,
                          session := (session w2)\<lparr>saml2_identities := ids\<rparr>\<rparr>)
           in (if (case response of
                     None \<Rightarrow> False
                   | Some (session_id, code, head, body) \<Rightarrow> code = ''200 Ok'') then
                 (case django_logout env request (session w3) of
                    (r, s) \<Rightarrow> (Inr r, emit DjangoLogout (w3\<lparr>session := s\<rparr>)))
               else (Inr (HttpResponse ''Error during logout'' None), w3))))
      | None \<Rightarrow>
     (case GET request ''SAMLRequest'' of
        Some saml_request \<Rightarrow>
          (case client_logout_request env conf (state_saml w2)
                  (saml2_identities (session w2)) (GET request) subject_id of
             ((response, success), st, ids) \<Rightarrow>
          (let w3 = emit (LogoutRequest subject_id)
                      (w2\<lparr>state_saml := st,
                          session := (session w2)\<lparr>saml2_identities := ids\<rparr>\<rparr>)
           in (if success then
                 redirect_to response
                   (emit AuthLogout (w3\<lparr>session := auth_logout env (session w3)\<rparr>))
               else if response \<noteq> None then redirect_to response w3
               else (Inr (HttpResponse ''Error during logout'' None), w3))))
      | None \<Rightarrow>
          (Inl (Http404 ''No SAMLResponse or SAMLRequest parameter found''), w2))))))"

text \<open>\<^verbatim>\<open>metadata\<close>. \<open>entities_descriptor\<close> stands for the library call followed by
  \<^verbatim>\<open>str\<close>.\<close>

definition metadata :: "env \<Rightarrow> request \<Rightarrow> world \<Rightarrow> result" where
  "metadata env request w =
     (let ed_id = (case SAML_METADATA_ID (settings w) of None \<Rightarrow> '''' | Some v \<Rightarrow> v);
          name = (case SAML_METADATA_NAME (settings w) of None \<Rightarrow> '''' | Some v \<Rightarrow> v);
          sign = (case SAML_METADATA_SIGN (settings w) of None \<Rightarrow> False | Some v \<Rightarrow> v)
      in (case load_conf env w of (conf, w1) \<Rightarrow>
     (let valid_for = (case conf ''valid_for'' of None \<Rightarrow> CInt 24 | Some v \<Rightarrow> v);
          ed = entity_descriptor env conf valid_for
      in (case conf ''key_file'' of
        None \<Rightarrow> (Inl (KeyError ''key_file''), w1)
      | Some key_file \<Rightarrow>
     (let output = entities_descriptor env [ed] valid_for name ed_id sign
                     (SecurityContext (conf_xmlsec env conf) key_file)
      in (Inr (HttpResponse output (Some ''text/xml; charset=utf8'')), w1))))))"

subsection \<open>What a run of a view did\<close>

text \<open>The collaborator calls a view made: the events added to the trace.\<close>

definition new_events :: "world \<Rightarrow> world \<Rightarrow> event list" where
  "new_events w w' = drop (length (trace w)) (trace w')"

fun is_login :: "event \<Rightarrow> bool" where
  "is_login (AuthLogin u) = True"
| "is_login e = False"

fun is_teardown :: "event \<Rightarrow> bool" where
  "is_teardown AuthLogout = True"
| "is_teardown DjangoLogout = True"
| "is_teardown e = False"

text \<open>A local authenticated session is created by \<^verbatim>\<open>auth.login\<close>, and torn down by
  \<^verbatim>\<open>auth.logout\<close> or by the framework's logout view.\<close>

definition session_created :: "world \<Rightarrow> world \<Rightarrow> bool" where
  "session_created w w' = list_ex is_login (new_events w w')"

definition torn_down :: "world \<Rightarrow> world \<Rightarrow> bool" where
  "torn_down w w' = list_ex is_teardown (new_events w w')"

subsection \<open>Example collaborators and states\<close>

definition example_settings :: settings where
  "example_settings =
     \<lparr>SAML_CONFIG = CDict [(''entityid'', CStr ''https://sp.example/metadata''),
                            (''key_file'', CStr ''sp.key'')],
      SAML_METADATA_ID = None, SAML_METADATA_NAME = None, SAML_METADATA_SIGN = None\<rparr>"

definition empty_session :: session where
  "empty_session =
     \<lparr>SAML_SUBJECT_ID = None, saml2_outstanding_queries = Map.empty,
      saml2_identities = [], framework_keys = []\<rparr>"

definition example_world :: world where
  "example_world =
     \<lparr>settings = example_settings, heap = [], session = empty_session,
      state_saml = [], trace = []\<rparr>"

text \<open>A session in which a user has logged in through SAML, and one in which the framework
  knows the user but no SAML subject is stored.\<close>

definition alice_session :: session where
  "alice_session =
     \<lparr>SAML_SUBJECT_ID = Some ''alice'', saml2_outstanding_queries = Map.empty,
      saml2_identities = [(''alice'', ''https://idp.example'')],
      framework_keys = [(''_auth_user_id'', ''alice'')]\<rparr>"

definition alice_world :: world where
  "alice_world = example_world\<lparr>session := alice_session\<rparr>"

definition bob_world :: world where
  "bob_world =
     example_world\<lparr>session := empty_session\<lparr>framework_keys := [(''_auth_user_id'', ''bob'')]\<rparr>\<rparr>"

text \<open>A library whose \<open>load\<close> adds a key to the dictionary it is given, which accepts the
  response \<open>''signed''\<close> for the subject \<open>alice\<close>, and which answers every logout with
  success and a redirect; a framework that knows the user \<open>alice\<close>.\<close>

definition no_body :: string where
  "no_body = []"

definition example_env :: env where
  "example_env =
     \<lparr>conf_load = (\<lambda>d. case d of
          CDict kvs \<Rightarrow> (map_of kvs, CDict ((''loaded'', CBool True) # kvs))
        | _ \<Rightarrow> (Map.empty, d)),
      conf_is_wayf_needed = (\<lambda>c. c ''wayf'' = Some (CBool True)),
      conf_get_available_idps =
        (\<lambda>c. [(''https://idp1.example'', ''one''), (''https://idp2.example'', ''two'')]),
      conf_single_sign_on_service = (\<lambda>c idp. idp @ ''/sso''),
      conf_xmlsec = (\<lambda>c. ''/usr/bin/xmlsec1''),
      client_authenticate = (\<lambda>c location relay_state b.
         (''id-1'', [''Location'',
            (case location of None \<Rightarrow> ''https://idp.example/sso'' | Some l \<Rightarrow> l)])),
      client_response = (\<lambda>c ids post entityid outstanding.
         (if post = ''signed''
          then Some \<lparr>resp_session_id = ''id-1'', resp_session_info = [''name_id'' \<mapsto> ''alice'']\<rparr>
          else None, ids)),
      client_global_logout = (\<lambda>c st ids subject_id.
         ((''id-2'', ''302 Found'', [(''Location'', ''https://idp.example/slo'')], no_body),
          (''id-2'', subject_id) # st, ids)),
      client_logout_response = (\<lambda>c st ids xmlstr b.
         (Some (''id-2'', ''200 Ok'', [], no_body), [], [])),
      client_logout_request = (\<lambda>c st ids q subject_id.
         ((Some [(''Location'', ''https://idp.example/done'')], True), st, [])),
      entity_descriptor = (\<lambda>c valid_for. ''<EntityDescriptor/>''),
      entities_descriptor = (\<lambda>eds valid_for name ed_id sign sc. concat eds),
      auth_authenticate = (\<lambda>session_info.
         if session_info ''name_id'' = Some ''alice'' then Some ''alice'' else None),
      auth_login = (\<lambda>s u. s\<lparr>framework_keys := [(''_auth_user_id'', u)]\<rparr>),
      auth_logout = (\<lambda>s. empty_session),
      django_logout = (\<lambda>r s. (FrameworkResponse ''registration/logged_out.html'', empty_session)),
      user_is_authenticated = (\<lambda>s. framework_keys s \<noteq> []),
      redirect_to_login = (\<lambda>r. HttpResponseRedirect ''/accounts/login/'')\<rparr>"

text \<open>The same library beside a framework that knows no user.\<close>

definition strangers_env :: env where
  "strangers_env = example_env\<lparr>auth_authenticate := (\<lambda>session_info. None)\<rparr>"

text \<open>A configuration with several identity providers to choose from.\<close>

definition wayf_world :: world where
  "wayf_world =
     example_world\<lparr>settings := example_settings\<lparr>SAML_CONFIG :=
        CDict [(''entityid'', CStr ''https://sp.example/metadata''), (''wayf'', CBool True)]\<rparr>\<rparr>"

text \<open>Requests.\<close>

definition empty_request :: request where
  "empty_request = \<lparr>GET = Map.empty, POST = Map.empty\<rparr>"

definition next_request :: request where
  "next_request = \<lparr>GET = [''next'' \<mapsto> ''/private/''], POST = Map.empty\<rparr>"

definition saml_request_get :: request where
  "saml_request_get = \<lparr>GET = [''SAMLRequest'' \<mapsto> ''request''], POST = Map.empty\<rparr>"

definition saml_response_get :: request where
  "saml_response_get = \<lparr>GET = [''SAMLResponse'' \<mapsto> ''response''], POST = Map.empty\<rparr>"

definition signed_post :: request where
  "signed_post = \<lparr>GET = Map.empty, POST = [''SAMLResponse'' \<mapsto> ''signed'']\<rparr>"

definition forged_post :: request where
  "forged_post = \<lparr>GET = Map.empty, POST = [''SAMLResponse'' \<mapsto> ''forged'']\<rparr>"

section \<open>Properties\<close>

subsection \<open>Loading the configuration\<close>

lemma load_conf_eq:
  "load_conf env w =
     (fst (conf_load env (SAML_CONFIG (settings w))),
      w\<lparr>heap := heap w @ [snd (conf_load env (SAML_CONFIG (settings w)))]\<rparr>)"
  by (simp add: load_conf_def deepcopy_def load_def split: prod.splits)

lemma emit_simps [simp]:
  "settings (emit e w) = settings w"
  "session (emit e w) = session w"
  "state_saml (emit e w) = state_saml w"
  "heap (emit e w) = heap w"
  "trace (emit e w) = trace w @ [e]"
  by (simp_all add: emit_def)

lemma redirect_to_world [simp]: "snd (redirect_to response w) = w"
  by (simp add: redirect_to_def split: sum.splits)

lemma example_conf:
  "fst (load_conf example_env example_world)
     = map_of [(''entityid'', CStr ''https://sp.example/metadata''),
               (''key_file'', CStr ''sp.key'')]"
  by (simp add: load_conf_eq example_env_def example_world_def example_settings_def)

text \<open>
  The example library changes the dictionary it loads. Loading through the copy leaves
  the change in the new object; loading the shared dictionary itself would change the
  shared dictionary.
\<close>

lemma load_conf_example:
  "heap (snd (load_conf example_env example_world))
     = [CDict [(''loaded'', CBool True),
               (''entityid'', CStr ''https://sp.example/metadata''),
               (''key_file'', CStr ''sp.key'')]]
   \<and> SAML_CONFIG (settings (snd (load_conf example_env example_world)))
       = SAML_CONFIG (settings example_world)"
  by (simp add: load_conf_eq example_env_def example_world_def example_settings_def)

lemma load_without_copy_example:
  "SAML_CONFIG (settings (snd (load example_env SettingsRef example_world)))
     \<noteq> SAML_CONFIG (settings example_world)"
  by (simp add: load_def example_env_def example_world_def example_settings_def)

lemma login_settings: "settings (snd (login env request w)) = settings w"
  by (simp add: login_def load_conf_eq Let_def split: prod.splits sum.splits)

lemma acs_settings: "settings (snd (assertion_consumer_service env request w)) = settings w"
  by (simp add: assertion_consumer_service_def load_conf_eq Let_def
      split: prod.splits option.splits)

lemma logout_settings: "settings (snd (logout env request w)) = settings w"
  by (simp add: logout_def login_required_def logout_view_def load_conf_eq Let_def
      split: prod.splits option.splits)

lemma logout_service_settings: "settings (snd (logout_service env request w)) = settings w"
  by (simp add: logout_service_def load_conf_eq Let_def split: prod.splits option.splits)

lemma metadata_settings: "settings (snd (metadata env request w)) = settings w"
  by (simp add: metadata_def load_conf_eq Let_def split: prod.splits option.splits)

text \<open>
  C8. Every operation loads its configuration from a deep copy of the shared
  configuration: the library is handed a new object, what it does to that object lands
  in the copy, and the dictionary bound to \<^verbatim>\<open>settings.SAML_CONFIG\<close> is the same after
  each of the five operations as before, for every request and every state.
\<close>

theorem shared_configuration_unchanged:
  "load_conf env w =
     (fst (conf_load env (SAML_CONFIG (settings w))),
      w\<lparr>heap := heap w @ [snd (conf_load env (SAML_CONFIG (settings w)))]\<rparr>)
   \<and> SAML_CONFIG (settings (snd (login env request w))) = SAML_CONFIG (settings w)
   \<and> SAML_CONFIG (settings (snd (assertion_consumer_service env request w)))
       = SAML_CONFIG (settings w)
   \<and> SAML_CONFIG (settings (snd (logout env request w))) = SAML_CONFIG (settings w)
   \<and> SAML_CONFIG (settings (snd (logout_service env request w))) = SAML_CONFIG (settings w)
   \<and> SAML_CONFIG (settings (snd (metadata env request w))) = SAML_CONFIG (settings w)"
  by (simp only: load_conf_eq login_settings acs_settings logout_settings
      logout_service_settings metadata_settings simp_thms)

subsection \<open>Login\<close>

text \<open>
  C2. A GET to the login view with no \<^verbatim>\<open>idp\<close> parameter, under a configuration that
  needs no discovery: the view asks the library for one AuthnRequest with the redirect
  binding and the destination as relay state; the library answers with a request
  identifier not yet outstanding and the pair \<^verbatim>\<open>('Location', url)\<close>; the view records
  that identifier with the destination (\<^verbatim>\<open>next\<close>, by default \<^verbatim>\<open>/\<close>) in the outstanding
  queries, changes no other entry, and redirects to the url.
\<close>

theorem login_redirects_and_records_query:
  assumes "GET request ''idp'' = None"
    and "conf = fst (load_conf env w)"
    and "\<not> conf_is_wayf_needed env conf"
    and "came_from = (case GET request ''next'' of None \<Rightarrow> ''/'' | Some v \<Rightarrow> v)"
    and "client_authenticate env conf None came_from BINDING_HTTP_REDIRECT
           = (session_id, [''Location'', location])"
    and "saml2_outstanding_queries (session w) session_id = None"
  shows
    "fst (login env request w) = Inr (HttpResponseRedirect location)
     \<and> new_events w (snd (login env request w))
         = [Authenticate None came_from BINDING_HTTP_REDIRECT]
     \<and> saml2_outstanding_queries (session (snd (login env request w)))
         = (saml2_outstanding_queries (session w))(session_id \<mapsto> came_from)"
  using assms
  by (simp add: login_def load_conf_eq Let_def get_default_def oq_set_def new_events_def)

theorem login_redirects_and_records_query_witness:
  "fst (login example_env next_request example_world)
     = Inr (HttpResponseRedirect ''https://idp.example/sso'')
   \<and> new_events example_world (snd (login example_env next_request example_world))
       = [Authenticate None ''/private/'' BINDING_HTTP_REDIRECT]
   \<and> saml2_outstanding_queries (session (snd (login example_env next_request example_world)))
       = (saml2_outstanding_queries (session example_world))(''id-1'' \<mapsto> ''/private/'')
   \<and> saml2_outstanding_queries (session (snd (login example_env empty_request example_world)))
       = (saml2_outstanding_queries (session example_world))(''id-1'' \<mapsto> ''/'')"
proof -
  let ?conf = "fst (load_conf example_env example_world)"
  have idp: "GET next_request ''idp'' = None" "GET empty_request ''idp'' = None"
    by (simp_all add: next_request_def empty_request_def)
  have wayf: "\<not> conf_is_wayf_needed example_env ?conf"
    by (simp add: example_conf) (simp add: example_env_def)
  have came_from:
    "''/private/'' = (case GET next_request ''next'' of None \<Rightarrow> ''/'' | Some v \<Rightarrow> v)"
    "''/'' = (case GET empty_request ''next'' of None \<Rightarrow> ''/'' | Some v \<Rightarrow> v)"
    by (simp_all add: next_request_def empty_request_def)
  have authn: "client_authenticate example_env ?conf None came_from BINDING_HTTP_REDIRECT
      = (''id-1'', [''Location'', ''https://idp.example/sso''])" for came_from
    by (simp add: example_env_def)
  have fresh: "saml2_outstanding_queries (session example_world) ''id-1'' = None"
    by (simp add: example_world_def empty_session_def)
  from login_redirects_and_records_query [OF idp(1) refl wayf came_from(1) authn fresh]
    login_redirects_and_records_query [OF idp(2) refl wayf came_from(2) authn fresh]
  show ?thesis by simp
qed

text \<open>
  C10. A GET to the login view with no \<^verbatim>\<open>idp\<close> parameter, under a configuration that
  needs discovery: the view returns the discovery page with the available identity
  providers and the destination, makes no call to the library's client (no AuthnRequest
  is built), and leaves the session, and with it the outstanding queries, as it was.
\<close>

theorem login_wayf_discovery:
  assumes "GET request ''idp'' = None"
    and "conf = fst (load_conf env w)"
    and "conf_is_wayf_needed env conf"
  shows
    "fst (login env request w)
       = Inr (RenderToResponse ''djangosaml2/wayf.html'' (conf_get_available_idps env conf)
                (case GET request ''next'' of None \<Rightarrow> ''/'' | Some v \<Rightarrow> v))
     \<and> new_events w (snd (login env request w)) = []
     \<and> session (snd (login env request w)) = session w"
  using assms
  by (simp add: login_def load_conf_eq Let_def get_default_def new_events_def)

theorem login_wayf_discovery_witness:
  "fst (login example_env next_request wayf_world)
     = Inr (RenderToResponse ''djangosaml2/wayf.html''
              [(''https://idp1.example'', ''one''), (''https://idp2.example'', ''two'')]
              ''/private/'')
   \<and> new_events wayf_world (snd (login example_env next_request wayf_world)) = []
   \<and> session (snd (login example_env next_request wayf_world)) = session wayf_world"
proof -
  let ?conf = "fst (load_conf example_env wayf_world)"
  have idp: "GET next_request ''idp'' = None"
    by (simp add: next_request_def)
  have wayf: "conf_is_wayf_needed example_env ?conf"
    by (simp add: load_conf_eq example_env_def wayf_world_def example_world_def
        example_settings_def)
  have idps: "conf_get_available_idps example_env ?conf
      = [(''https://idp1.example'', ''one''), (''https://idp2.example'', ''two'')]"
    by (simp add: example_env_def)
  have came_from:
    "(case GET next_request ''next'' of None \<Rightarrow> ''/'' | Some v \<Rightarrow> v) = ''/private/''"
    by (simp add: next_request_def)
  from login_wayf_discovery [OF idp refl wayf] show ?thesis
    by (simp only: idps came_from simp_thms)
qed

subsection \<open>Assertion consumer\<close>

text \<open>
  C1. For every POST to the assertion consumer: a local authenticated session is created
  (\<^verbatim>\<open>auth.login\<close> is called) only if \<^verbatim>\<open>client.response\<close> returned a verified response
  and the authentication backend resolved a user from its session info. If the
  verification returns \<^verbatim>\<open>None\<close>, the view answers with the body
  \<^verbatim>\<open>SAML response has errors. Please check the logs\<close>, which is no redirect, and creates no
  session; if the backend resolves no user, it answers \<^verbatim>\<open>user not valid\<close> and creates no
  session. In both cases the stored SAML subject is what it was.
\<close>

theorem acs_session_only_when_verified_and_resolved:
  assumes "conf = fst (load_conf env w)"
    and "assertion_consumer_service env request w = (out, w')"
  shows
    "(session_created w w' \<longrightarrow>
        (\<exists>post entityid response user.
           POST request ''SAMLResponse'' = Some post \<and> conf ''entityid'' = Some entityid
           \<and> fst (client_response env conf (saml2_identities (session w)) post entityid
                    (saml2_outstanding_queries (session w))) = Some response
           \<and> auth_authenticate env (resp_session_info response) = Some user))
     \<and> (\<forall>post entityid.
          POST request ''SAMLResponse'' = Some post \<and> conf ''entityid'' = Some entityid
          \<and> fst (client_response env conf (saml2_identities (session w)) post entityid
                   (saml2_outstanding_queries (session w))) = None \<longrightarrow>
            out = Inr (HttpResponse ''SAML response has errors. Please check the logs'' None)
            \<and> \<not> session_created w w'
            \<and> SAML_SUBJECT_ID (session w') = SAML_SUBJECT_ID (session w))
     \<and> (\<forall>post entityid response.
          POST request ''SAMLResponse'' = Some post \<and> conf ''entityid'' = Some entityid
          \<and> fst (client_response env conf (saml2_identities (session w)) post entityid
                   (saml2_outstanding_queries (session w))) = Some response
          \<and> auth_authenticate env (resp_session_info response) = None \<longrightarrow>
            out = Inr (HttpResponse ''user not valid'' None)
            \<and> \<not> session_created w w'
            \<and> SAML_SUBJECT_ID (session w') = SAML_SUBJECT_ID (session w))"
  using assms
  by (auto simp add: assertion_consumer_service_def load_conf_eq Let_def session_created_def
      new_events_def oq_outstanding_queries_def oq_delete_def
      split: prod.splits option.splits if_splits)

theorem acs_session_only_when_verified_and_resolved_witness:
  "fst (assertion_consumer_service example_env forged_post example_world)
     = Inr (HttpResponse ''SAML response has errors. Please check the logs'' None)
   \<and> \<not> session_created example_world
         (snd (assertion_consumer_service example_env forged_post example_world))
   \<and> fst (assertion_consumer_service strangers_env signed_post example_world)
       = Inr (HttpResponse ''user not valid'' None)
   \<and> \<not> session_created example_world
         (snd (assertion_consumer_service strangers_env signed_post example_world))
   \<and> session_created example_world
         (snd (assertion_consumer_service example_env signed_post example_world))"
proof -
  let ?conf = "fst (load_conf example_env example_world)"
  let ?verified = "\<lparr>resp_session_id = ''id-1'', resp_session_info = [''name_id'' \<mapsto> ''alice'']\<rparr>"
  have strangers_conf: "fst (load_conf strangers_env example_world) = ?conf"
    by (simp add: load_conf_eq strangers_env_def)
  have entityid: "?conf ''entityid'' = Some (CStr ''https://sp.example/metadata'')"
    by (simp add: example_conf)
  have forged: "POST forged_post ''SAMLResponse'' = Some ''forged''
      \<and> ?conf ''entityid'' = Some (CStr ''https://sp.example/metadata'')
      \<and> fst (client_response example_env ?conf (saml2_identities (session example_world))
               ''forged'' (CStr ''https://sp.example/metadata'')
               (saml2_outstanding_queries (session example_world))) = None"
    using entityid by (simp add: forged_post_def example_env_def)
  have signed: "POST signed_post ''SAMLResponse'' = Some ''signed''
      \<and> ?conf ''entityid'' = Some (CStr ''https://sp.example/metadata'')
      \<and> fst (client_response strangers_env ?conf (saml2_identities (session example_world))
               ''signed'' (CStr ''https://sp.example/metadata'')
               (saml2_outstanding_queries (session example_world))) = Some ?verified
      \<and> auth_authenticate strangers_env (resp_session_info ?verified) = None"
    using entityid by (simp add: signed_post_def example_env_def strangers_env_def)
  have run1: "assertion_consumer_service example_env forged_post example_world
      = (fst (assertion_consumer_service example_env forged_post example_world),
         snd (assertion_consumer_service example_env forged_post example_world))"
    by simp
  have run2: "assertion_consumer_service strangers_env signed_post example_world
      = (fst (assertion_consumer_service strangers_env signed_post example_world),
         snd (assertion_consumer_service strangers_env signed_post example_world))"
    by simp
  note failed =
    acs_session_only_when_verified_and_resolved [OF refl run1,
      THEN conjunct2, THEN conjunct1, THEN spec, THEN spec, THEN mp, OF forged]
  note unknown =
    acs_session_only_when_verified_and_resolved [OF strangers_conf [symmetric] run2,
      THEN conjunct2, THEN conjunct2, THEN spec, THEN spec, THEN spec, THEN mp, OF signed]
  have created: "session_created example_world
      (snd (assertion_consumer_service example_env signed_post example_world))"
    by (simp add: assertion_consumer_service_def load_conf_eq Let_def session_created_def
        new_events_def signed_post_def example_env_def example_world_def
        example_settings_def empty_session_def oq_outstanding_queries_def oq_delete_def
        get_default_def)
  from failed unknown created show ?thesis by simp
qed

subsection \<open>Logout initiate\<close>

text \<open>
  C6, as amended. A request to the logout view that passes \<^verbatim>\<open>login_required\<close> but whose
  session stores no SAML subject identifier fails with the \<^verbatim>\<open>KeyError\<close> of the session
  lookup: no view raises \<open>NotAuthenticated\<close>. The state store has been opened by then, and
  the library is not asked for a LogoutRequest.
\<close>

theorem logout_without_subject_id:
  "user_is_authenticated env (session w) \<Longrightarrow> SAML_SUBJECT_ID (session w) = None \<Longrightarrow>
     fst (logout env request w) = Inl (KeyError ''SAML_SUBJECT_ID'')
     \<and> new_events w (snd (logout env request w)) = [ShelveOpen]"
  by (simp add: logout_def login_required_def logout_view_def load_conf_eq Let_def
      new_events_def)

theorem logout_without_subject_id_witness:
  "fst (logout example_env empty_request bob_world) = Inl (KeyError ''SAML_SUBJECT_ID'')
   \<and> new_events bob_world (snd (logout example_env empty_request bob_world)) = [ShelveOpen]"
proof -
  have a: "user_is_authenticated example_env (session bob_world)"
    by (simp add: example_env_def bob_world_def example_world_def empty_session_def)
  have s: "SAML_SUBJECT_ID (session bob_world) = None"
    by (simp add: bob_world_def example_world_def empty_session_def)
  show ?thesis
    by (rule logout_without_subject_id [OF a s])
qed

text \<open>The claim as it stands fails for the user \<open>bob\<close>, whom the framework knows and for
  whom no SAML subject is stored.\<close>

theorem logout_without_subject_id_counterexample:
  "user_is_authenticated example_env (session bob_world)
   \<and> SAML_SUBJECT_ID (session bob_world) = None
   \<and> fst (logout example_env empty_request bob_world) = Inl (KeyError ''SAML_SUBJECT_ID'')
   \<and> fst (logout example_env empty_request bob_world) \<noteq> Inl NotAuthenticated"
  by (simp add: logout_def login_required_def logout_view_def load_conf_eq Let_def
      example_env_def bob_world_def example_world_def empty_session_def)

text \<open>
  C7, as amended. In the logout view, for a request that passes \<^verbatim>\<open>login_required\<close>,
  every response is preceded by a flush of the state store: the calls made are
  \<^verbatim>\<open>shelve.open\<close>, \<^verbatim>\<open>client.global_logout\<close> for the stored subject and
  \<^verbatim>\<open>state.sync()\<close>, in this order and no others, so the store is flushed after the
  library call and is not released by the view.
\<close>

theorem logout_flushes_before_response:
  "user_is_authenticated env (session w) \<Longrightarrow> logout env request w = (Inr response, w') \<Longrightarrow>
     \<exists>subject_id. SAML_SUBJECT_ID (session w) = Some subject_id
       \<and> new_events w w' = [ShelveOpen, GlobalLogout subject_id, ShelveSync]"
  by (auto simp add: logout_def login_required_def logout_view_def load_conf_eq Let_def
      new_events_def split: prod.splits option.splits)

theorem logout_flushes_before_response_witness:
  "fst (logout example_env empty_request alice_world)
     = Inr (HttpResponseRedirect ''https://idp.example/slo'')
   \<and> new_events alice_world (snd (logout example_env empty_request alice_world))
       = [ShelveOpen, GlobalLogout ''alice'', ShelveSync]"
proof -
  have a: "user_is_authenticated example_env (session alice_world)"
    by (simp add: example_env_def alice_world_def alice_session_def)
  have s: "SAML_SUBJECT_ID (session alice_world) = Some ''alice''"
    by (simp add: alice_world_def alice_session_def)
  have r: "fst (logout example_env empty_request alice_world)
      = Inr (HttpResponseRedirect ''https://idp.example/slo'')"
    by (simp add: logout_def login_required_def logout_view_def load_conf_eq Let_def
        example_env_def alice_world_def alice_session_def example_world_def)
  then have run: "logout example_env empty_request alice_world
      = (Inr (HttpResponseRedirect ''https://idp.example/slo''),
         snd (logout example_env empty_request alice_world))"
    by (metis prod.collapse)
  from logout_flushes_before_response [OF a run] s r show ?thesis
    by auto
qed

text \<open>The claim as it stands fails in the logout service: answering a logout request of
  the identity provider, the view opens the store and responds with neither a flush nor a
  release. The logout view responds without a release as well.\<close>

theorem logout_flushes_before_response_counterexample:
  "fst (logout_service example_env saml_request_get alice_world)
     = Inr (HttpResponseRedirect ''https://idp.example/done'')
   \<and> new_events alice_world (snd (logout_service example_env saml_request_get alice_world))
       = [ShelveOpen, LogoutRequest ''alice'', AuthLogout]
   \<and> ShelveSync \<notin> set (new_events alice_world
         (snd (logout_service example_env saml_request_get alice_world)))
   \<and> ShelveClose \<notin> set (new_events alice_world
         (snd (logout_service example_env saml_request_get alice_world)))
   \<and> fst (logout example_env empty_request alice_world)
       = Inr (HttpResponseRedirect ''https://idp.example/slo'')
   \<and> ShelveClose \<notin> set (new_events alice_world
         (snd (logout example_env empty_request alice_world)))"
  by (simp add: logout_service_def logout_def login_required_def logout_view_def load_conf_eq
      Let_def saml_request_get_def alice_world_def alice_session_def example_world_def
      example_env_def new_events_def redirect_to_def location_of_def)

subsection \<open>Logout service\<close>

text \<open>
  C5. The logout service reads \<^verbatim>\<open>request.session['SAML_SUBJECT_ID']\<close> before it looks
  at the query parameters: when the session has no such key the view raises \<^verbatim>\<open>KeyError\<close>
  whatever the parameters are, having only opened the state store; it returns no
  redirect, no error body and no \<^verbatim>\<open>Http404\<close>, and leaves the session as it was.
\<close>

theorem logout_service_missing_subject_id:
  "SAML_SUBJECT_ID (session w) = None \<Longrightarrow>
     fst (logout_service env request w) = Inl (KeyError ''SAML_SUBJECT_ID'')
     \<and> new_events w (snd (logout_service env request w)) = [ShelveOpen]
     \<and> session (snd (logout_service env request w)) = session w"
  by (simp add: logout_service_def load_conf_eq Let_def new_events_def)

theorem logout_service_missing_subject_id_witness:
  "fst (logout_service example_env saml_request_get bob_world)
     = Inl (KeyError ''SAML_SUBJECT_ID'')
   \<and> fst (logout_service example_env saml_response_get bob_world)
       = Inl (KeyError ''SAML_SUBJECT_ID'')
   \<and> fst (logout_service example_env empty_request bob_world)
       = Inl (KeyError ''SAML_SUBJECT_ID'')"
proof -
  have h: "SAML_SUBJECT_ID (session bob_world) = None"
    by (simp add: bob_world_def example_world_def empty_session_def)
  show ?thesis
    using logout_service_missing_subject_id [OF h, of example_env saml_request_get]
      logout_service_missing_subject_id [OF h, of example_env saml_response_get]
      logout_service_missing_subject_id [OF h, of example_env empty_request]
    by simp
qed

text \<open>
  C4, as amended. A GET to the logout service with neither \<^verbatim>\<open>SAMLResponse\<close> nor
  \<^verbatim>\<open>SAMLRequest\<close>, in a session that stores a SAML subject identifier, raises
  \<^verbatim>\<open>Http404\<close>.
\<close>

theorem logout_service_not_found:
  "SAML_SUBJECT_ID (session w) = Some subject_id \<Longrightarrow>
   GET request ''SAMLResponse'' = None \<Longrightarrow> GET request ''SAMLRequest'' = None \<Longrightarrow>
     fst (logout_service env request w)
       = Inl (Http404 ''No SAMLResponse or SAMLRequest parameter found'')"
  by (simp add: logout_service_def load_conf_eq Let_def)

theorem logout_service_not_found_witness:
  "fst (logout_service example_env empty_request alice_world)
     = Inl (Http404 ''No SAMLResponse or SAMLRequest parameter found'')"
proof -
  have h: "SAML_SUBJECT_ID (session alice_world) = Some ''alice''"
    by (simp add: alice_world_def alice_session_def)
  have g: "GET empty_request ''SAMLResponse'' = None" "GET empty_request ''SAMLRequest'' = None"
    by (simp_all add: empty_request_def)
  show ?thesis
    by (rule logout_service_not_found [OF h g])
qed

text \<open>The claim as it stands fails in a session without a SAML subject identifier.\<close>

theorem logout_service_not_found_counterexample:
  "GET empty_request ''SAMLResponse'' = None \<and> GET empty_request ''SAMLRequest'' = None
   \<and> fst (logout_service example_env empty_request bob_world)
       = Inl (KeyError ''SAML_SUBJECT_ID'')
   \<and> fst (logout_service example_env empty_request bob_world)
       \<noteq> Inl (Http404 ''No SAMLResponse or SAMLRequest parameter found'')"
  by (simp add: logout_service_def load_conf_eq Let_def empty_request_def bob_world_def
      example_world_def empty_session_def)

text \<open>
  C3, as amended. A GET to the logout service with exactly one protocol parameter, in a
  session that stores a SAML subject identifier. With \<^verbatim>\<open>SAMLResponse\<close>: the local
  session is torn down if and only if the library's validation returns a response whose
  status is \<^verbatim>\<open>200 Ok\<close>, and the view then answers with what the framework's logout view
  returns; otherwise it answers \<^verbatim>\<open>Error during logout\<close>. With \<^verbatim>\<open>SAMLRequest\<close> there
  are three cases: on success the session is torn down; on failure with a response it is
  not, and in both the view redirects to the url of the \<^verbatim>\<open>Location\<close> header that heads
  the library's response; on failure without a response the session is not torn down and
  the view answers \<^verbatim>\<open>Error during logout\<close>.
\<close>

theorem logout_service_outcomes:
  assumes "SAML_SUBJECT_ID (session w) = Some subject_id"
    and "conf = fst (load_conf env w)"
    and "logout_service env request w = (out, w')"
  shows
    "(\<forall>saml_response.
        GET request ''SAMLResponse'' = Some saml_response \<and> GET request ''SAMLRequest'' = None \<longrightarrow>
          (torn_down w w' \<longleftrightarrow>
             (\<exists>session_id head body.
                fst (client_logout_response env conf (state_saml w) (saml2_identities (session w))
                       saml_response BINDING_HTTP_REDIRECT)
                  = Some (session_id, ''200 Ok'', head, body)))
          \<and> (torn_down w w' \<longrightarrow> (\<exists>s. out = Inr (fst (django_logout env request s))))
          \<and> (\<not> torn_down w w' \<longrightarrow> out = Inr (HttpResponse ''Error during logout'' None)))
     \<and> (\<forall>saml_request response success.
          GET request ''SAMLResponse'' = None \<and> GET request ''SAMLRequest'' = Some saml_request
          \<and> fst (client_logout_request env conf (state_saml w) (saml2_identities (session w))
                   (GET request) subject_id) = (response, success) \<longrightarrow>
            (success \<longrightarrow>
               torn_down w w'
               \<and> (\<forall>url rest. response = Some ((''Location'', url) # rest) \<longrightarrow>
                    out = Inr (HttpResponseRedirect url)))
            \<and> (\<not> success \<and> response \<noteq> None \<longrightarrow>
               \<not> torn_down w w'
               \<and> (\<forall>url rest. response = Some ((''Location'', url) # rest) \<longrightarrow>
                    out = Inr (HttpResponseRedirect url)))
            \<and> (\<not> success \<and> response = None \<longrightarrow>
               \<not> torn_down w w' \<and> out = Inr (HttpResponse ''Error during logout'' None)))"
proof -
  have framework: "\<exists>s. r = fst (django_logout env request s)"
    if "django_logout env request s' = (r, s'')" for r s' s''
    using that by (metis fst_conv)
  show ?thesis
    using assms
    by (auto simp add: logout_service_def load_conf_eq Let_def torn_down_def new_events_def
        redirect_to_def location_of_def
        split: prod.splits option.splits sum.splits list.splits if_splits
        intro: framework)
qed

theorem logout_service_outcomes_witness:
  "torn_down alice_world (snd (logout_service example_env saml_request_get alice_world))
   \<and> fst (logout_service example_env saml_request_get alice_world)
       = Inr (HttpResponseRedirect ''https://idp.example/done'')
   \<and> torn_down alice_world (snd (logout_service example_env saml_response_get alice_world))"
proof -
  let ?conf = "fst (load_conf example_env alice_world)"
  have h: "SAML_SUBJECT_ID (session alice_world) = Some ''alice''"
    by (simp add: alice_world_def alice_session_def)
  have run1: "logout_service example_env saml_request_get alice_world
      = (fst (logout_service example_env saml_request_get alice_world),
         snd (logout_service example_env saml_request_get alice_world))"
    by simp
  have run2: "logout_service example_env saml_response_get alice_world
      = (fst (logout_service example_env saml_response_get alice_world),
         snd (logout_service example_env saml_response_get alice_world))"
    by simp
  have q1: "GET saml_request_get ''SAMLResponse'' = None
      \<and> GET saml_request_get ''SAMLRequest'' = Some ''request''
      \<and> fst (client_logout_request example_env ?conf (state_saml alice_world)
               (saml2_identities (session alice_world)) (GET saml_request_get) ''alice'')
          = (Some ((''Location'', ''https://idp.example/done'') # []), True)"
    by (simp add: saml_request_get_def example_env_def)
  have q2: "GET saml_response_get ''SAMLResponse'' = Some ''response''
      \<and> GET saml_response_get ''SAMLRequest'' = None"
    by (simp add: saml_response_get_def)
  have ok: "\<exists>session_id head body.
      fst (client_logout_response example_env ?conf (state_saml alice_world)
             (saml2_identities (session alice_world)) ''response'' BINDING_HTTP_REDIRECT)
        = Some (session_id, ''200 Ok'', head, body)"
    by (simp add: example_env_def)
  note on_request =
    logout_service_outcomes [OF h refl run1,
      THEN conjunct2, THEN spec, THEN spec, THEN spec, THEN mp, OF q1, THEN conjunct1,
      THEN mp, OF TrueI]
  note on_response =
    logout_service_outcomes [OF h refl run2,
      THEN conjunct1, THEN spec, THEN mp, OF q2, THEN conjunct1]
  from on_request
  have "torn_down alice_world (snd (logout_service example_env saml_request_get alice_world))"
    and "fst (logout_service example_env saml_request_get alice_world)
         = Inr (HttpResponseRedirect ''https://idp.example/done'')"
    by simp_all
  moreover from on_response ok
  have "torn_down alice_world (snd (logout_service example_env saml_response_get alice_world))"
    by simp
  ultimately show ?thesis by simp
qed

text \<open>The claim as it stands fails in a session without a SAML subject identifier: the
  library would accept the logout response, yet the session is not torn down and the answer
  is not the error body.\<close>

theorem logout_service_outcomes_counterexample:
  "GET saml_response_get ''SAMLResponse'' = Some ''response''
   \<and> GET saml_response_get ''SAMLRequest'' = None
   \<and> fst (client_logout_response example_env (fst (load_conf example_env bob_world))
            (state_saml bob_world) (saml2_identities (session bob_world))
            ''response'' BINDING_HTTP_REDIRECT)
       = Some (''id-2'', ''200 Ok'', [], no_body)
   \<and> \<not> torn_down bob_world (snd (logout_service example_env saml_response_get bob_world))
   \<and> fst (logout_service example_env saml_response_get bob_world)
       = Inl (KeyError ''SAML_SUBJECT_ID'')
   \<and> fst (logout_service example_env saml_response_get bob_world)
       \<noteq> Inr (HttpResponse ''Error during logout'' None)"
  by (simp add: logout_service_def load_conf_eq Let_def saml_response_get_def bob_world_def
      example_world_def empty_session_def example_env_def torn_down_def new_events_def)

subsection \<open>Metadata\<close>

text \<open>
  C9. The metadata view is a function of the settings alone: two invocations under the
  same settings, whatever the requests, sessions and state stores, return the same
  result (the library's rendering being the same function in both); the view leaves
  session and state store untouched and makes no client call; the document is returned
  with the content type \<^verbatim>\<open>text/xml; charset=utf8\<close>, and the validity handed to the
  library is 24 when the configuration gives none.
\<close>

theorem metadata_function_of_configuration:
  assumes "settings w1 = settings w2"
    and "conf = fst (load_conf env w1)"
    and "valid_for = (case conf ''valid_for'' of None \<Rightarrow> CInt 24 | Some v \<Rightarrow> v)"
  shows
    "fst (metadata env request1 w1) = fst (metadata env request2 w2)
     \<and> session (snd (metadata env request1 w1)) = session w1
     \<and> state_saml (snd (metadata env request1 w1)) = state_saml w1
     \<and> new_events w1 (snd (metadata env request1 w1)) = []
     \<and> (\<forall>key_file. conf ''key_file'' = Some key_file \<longrightarrow>
          fst (metadata env request1 w1)
            = Inr (HttpResponse
                (entities_descriptor env [entity_descriptor env conf valid_for] valid_for
                   (case SAML_METADATA_NAME (settings w1) of None \<Rightarrow> '''' | Some v \<Rightarrow> v)
                   (case SAML_METADATA_ID (settings w1) of None \<Rightarrow> '''' | Some v \<Rightarrow> v)
                   (case SAML_METADATA_SIGN (settings w1) of None \<Rightarrow> False | Some v \<Rightarrow> v)
                   (SecurityContext (conf_xmlsec env conf) key_file))
                (Some ''text/xml; charset=utf8'')))"
  using assms
  by (simp add: metadata_def load_conf_eq Let_def new_events_def split: option.splits)

theorem metadata_function_of_configuration_witness:
  "fst (metadata example_env empty_request example_world)
     = fst (metadata example_env signed_post alice_world)
   \<and> fst (metadata example_env empty_request example_world)
       = Inr (HttpResponse ''<EntityDescriptor/>'' (Some ''text/xml; charset=utf8''))"
proof -
  let ?conf = "fst (load_conf example_env example_world)"
  have same: "settings example_world = settings alice_world"
    by (simp add: alice_world_def)
  have valid_for: "CInt 24 = (case ?conf ''valid_for'' of None \<Rightarrow> CInt 24 | Some v \<Rightarrow> v)"
    by (simp add: example_conf)
  have key_file: "?conf ''key_file'' = Some (CStr ''sp.key'')"
    by (simp add: example_conf)
  have out: "entities_descriptor example_env [entity_descriptor example_env ?conf (CInt 24)]
       (CInt 24) name ed_id sign sc = ''<EntityDescriptor/>''" for name ed_id sign sc
    by (simp add: example_env_def)
  note run = metadata_function_of_configuration [OF same refl valid_for,
      of empty_request signed_post]
  from run have 1: "fst (metadata example_env empty_request example_world)
      = fst (metadata example_env signed_post alice_world)"
    by (rule conjunct1)
  have 2: "fst (metadata example_env empty_request example_world)
      = Inr (HttpResponse ''<EntityDescriptor/>'' (Some ''text/xml; charset=utf8''))"
    using run [THEN conjunct2, THEN conjunct2, THEN conjunct2, THEN conjunct2,
        THEN spec, THEN mp, OF key_file]
    by (simp only: out)
  from 1 2 show ?thesis by (rule conjI)
qed

end
